theory Spec2Isabelle
  imports Complex_Main "HOL-Library.AList"
begin

section \<open>Python values, exceptions and response objects\<close>

text \<open>
  The library \<^verbatim>\<open>jsonrpc2/mixin.py\<close> is Python 2 code working on dynamically typed
  values. The values that reach it are the ones \<^verbatim>\<open>json.loads\<close> produces (None,
  booleans, numbers, strings, lists, dictionaries with string keys) and instances of
  classes: the six response classes of the module, user subclasses of
  \<^verbatim>\<open>SuccessResponse\<close>, and any other object an operation may return.

  An instance is its class together with its attributes, as \<^verbatim>\<open>getattr\<close> sees
  them. The special methods every class inherits (\<^verbatim>\<open>__init__\<close>, \<^verbatim>\<open>__str__\<close>,
  ...) are left out of the attribute list: their names start with an underscore and the
  encoder skips such names.
\<close>

datatype pyclass =
    InternalError_class
  | NonExistentMethodError_class
  | InvalidJSONError_class
  | invalidRequestObjecError_class
  | CustomException_class
  | SuccessResponse_class
  | SuccessResponse_subclass
  | Other_class

datatype pyval =
    PNone
  | PBool bool
  | PInt int
  | PFloat real
  | PStr string
  | PList "pyval list"
  | PDict "(string \<times> pyval) list"
  | PObj pyclass "(string \<times> pyval) list"

text \<open>
  Exceptions are classified the way the \<^verbatim>\<open>except\<close> clauses of
  \<^verbatim>\<open>_validate_request\<close> tell them apart, by the classes they are instances of:
  \<^item> \<open>TypeError\<close>: a \<^verbatim>\<open>TypeError\<close> that is not a \<^verbatim>\<open>BaseJSONRPCException\<close>;
  \<^item> \<open>JSONRPCException\<close>: an instance of \<^verbatim>\<open>BaseJSONRPCException\<close> that is not a
    \<^verbatim>\<open>TypeError\<close>, with its \<^verbatim>\<open>code\<close> attribute, if the subclass defines one, and
    its \<^verbatim>\<open>message\<close>;
  \<^item> \<open>JSONRPCTypeError\<close>: an instance of a class that derives from both, such as
    \<^verbatim>\<open>class BadParams(BaseJSONRPCException, TypeError)\<close>, with the same attributes;
  \<^item> \<open>OtherException\<close>: anything else, named by its class.
\<close>

datatype pyexc =
    TypeError
  | JSONRPCException "pyval option" pyval
  | JSONRPCTypeError "pyval option" pyval
  | OtherException string

text \<open>\<^verbatim>\<open>isinstance(e, TypeError)\<close> and \<^verbatim>\<open>isinstance(e, BaseJSONRPCException)\<close>.\<close>

fun isinstance_TypeError :: "pyexc \<Rightarrow> bool" where
  "isinstance_TypeError TypeError = True"
| "isinstance_TypeError (JSONRPCTypeError code message) = True"
| "isinstance_TypeError _ = False"

fun isinstance_BaseJSONRPCException :: "pyexc \<Rightarrow> bool" where
  "isinstance_BaseJSONRPCException (JSONRPCException code message) = True"
| "isinstance_BaseJSONRPCException (JSONRPCTypeError code message) = True"
| "isinstance_BaseJSONRPCException _ = False"

definition AttributeError :: pyexc where
  "AttributeError = OtherException ''AttributeError''"

definition RPC_VERSION :: string where
  "RPC_VERSION = ''2.0''"

text \<open>\<^verbatim>\<open>isinstance(v, SuccessResponse)\<close> and \<^verbatim>\<open>isinstance(v, BaseResourceResponse)\<close>.\<close>

fun isinstance_SuccessResponse :: "pyval \<Rightarrow> bool" where
  "isinstance_SuccessResponse (PObj c attrs) =
     (c = SuccessResponse_class \<or> c = SuccessResponse_subclass)"
| "isinstance_SuccessResponse _ = False"

fun isinstance_BaseResourceResponse :: "pyval \<Rightarrow> bool" where
  "isinstance_BaseResourceResponse (PObj c attrs) = (c \<noteq> Other_class)"
| "isinstance_BaseResourceResponse _ = False"

text \<open>\<^verbatim>\<open>d.get(k)\<close> on a dictionary: the value, or None when the key is missing.\<close>

definition dict_get :: "(string \<times> pyval) list \<Rightarrow> string \<Rightarrow> pyval" where
  "dict_get d k = (case map_of d k of None \<Rightarrow> PNone | Some v \<Rightarrow> v)"

text \<open>\<^verbatim>\<open>getattr(obj, name)\<close> on an instance; \<open>None\<close> stands for AttributeError.\<close>

fun getattr_obj :: "pyval \<Rightarrow> string \<Rightarrow> pyval option" where
  "getattr_obj (PObj c attrs) name = map_of attrs name"
| "getattr_obj _ name = None"

subsection \<open>The response classes (lines 59 to 119)\<close>

text \<open>
  \<^verbatim>\<open>BaseResourceResponse.__init__\<close> sets \<^verbatim>\<open>id\<close> and an empty \<^verbatim>\<open>_exclude\<close>; each
  subclass adds \<^verbatim>\<open>error\<close> or \<^verbatim>\<open>result\<close>. The default \<^verbatim>\<open>request_id = None\<close> is
  written out at the call sites.
\<close>

definition BaseResourceResponse_init :: "pyval \<Rightarrow> (string \<times> pyval) list" where
  "BaseResourceResponse_init request_id = [(''id'', request_id), (''_exclude'', PList [])]"

definition InternalError :: "pyval \<Rightarrow> pyval" where
  "InternalError request_id =
     PObj InternalError_class (BaseResourceResponse_init request_id @
       [(''error'', PDict [(''code'', PInt (- 32603)), (''message'', PStr ''Internal error.'')])])"

definition NonExistentMethodError :: "pyval \<Rightarrow> pyval" where
  "NonExistentMethodError request_id =
     PObj NonExistentMethodError_class (BaseResourceResponse_init request_id @
       [(''error'', PDict [(''code'', PInt (- 32601)), (''message'', PStr ''Method not found.'')])])"

definition InvalidJSONError :: "pyval \<Rightarrow> pyval" where
  "InvalidJSONError request_id =
     PObj InvalidJSONError_class (BaseResourceResponse_init request_id @
       [(''error'', PDict [(''code'', PInt (- 32700)), (''message'', PStr ''Parse error.'')])])"

definition invalidRequestObjecError :: "pyval \<Rightarrow> pyval" where
  "invalidRequestObjecError request_id =
     PObj invalidRequestObjecError_class (BaseResourceResponse_init request_id @
       [(''error'', PDict [(''code'', PInt (- 32600)), (''message'', PStr ''Invalid Request.'')])])"

text \<open>
  \<^verbatim>\<open>CustomException(e, request_id)\<close> reads \<^verbatim>\<open>e.code\<close> and \<^verbatim>\<open>e.message\<close>. An
  exception class that defines no \<^verbatim>\<open>code\<close> makes the constructor raise
  AttributeError. The dispatcher only ever passes a \<^verbatim>\<open>BaseJSONRPCException\<close>.
\<close>

fun CustomException :: "pyexc \<Rightarrow> pyval \<Rightarrow> pyexc + pyval" where
  "CustomException (JSONRPCException (Some code) message) request_id =
     Inr (PObj CustomException_class (BaseResourceResponse_init request_id @
       [(''error'', PDict [(''code'', code), (''message'', message)])]))"
| "CustomException (JSONRPCTypeError (Some code) message) request_id =
     Inr (PObj CustomException_class (BaseResourceResponse_init request_id @
       [(''error'', PDict [(''code'', code), (''message'', message)])]))"
| "CustomException _ request_id = Inl AttributeError"

definition SuccessResponse :: "pyval \<Rightarrow> pyval \<Rightarrow> pyval" where
  "SuccessResponse result request_id =
     PObj SuccessResponse_class (BaseResourceResponse_init request_id @ [(''result'', result)])"

text \<open>What a caller reads off a response object.\<close>

definition response_id :: "pyval \<Rightarrow> pyval option" where
  "response_id r = getattr_obj r ''id''"

definition response_result :: "pyval \<Rightarrow> pyval option" where
  "response_result r = getattr_obj r ''result''"

definition response_error :: "pyval \<Rightarrow> pyval option" where
  "response_error r = getattr_obj r ''error''"

definition error_code :: "pyval \<Rightarrow> pyval option" where
  "error_code r = (case getattr_obj r ''error'' of Some (PDict e) \<Rightarrow> map_of e ''code'' | _ \<Rightarrow> None)"

definition error_message :: "pyval \<Rightarrow> pyval option" where
  "error_message r =
     (case getattr_obj r ''error'' of Some (PDict e) \<Rightarrow> map_of e ''message'' | _ \<Rightarrow> None)"

section \<open>The dispatcher (lines 121 to 192)\<close>

text \<open>
  The object \<^verbatim>\<open>self\<close> that mixes the dispatcher in is seen through four things:
  the names \<^verbatim>\<open>dir(self)\<close> lists, what calling \<^verbatim>\<open>getattr(self, name)\<close> with
  positional and keyword arguments does (it returns a value or raises; calling an
  attribute that is not callable, or with arguments its signature rejects, raises
  TypeError), the names \<^verbatim>\<open>dir(self._get_protected_handler())\<close> lists, and the
  \<^verbatim>\<open>_logger\<close> attribute when there is one: \<^verbatim>\<open>_logger.exception\<close> returns
  (\<open>None\<close>) or raises. Operations are taken to return; what they do to the state
  of the handler is not modelled.
\<close>

type_synonym callable = "pyval list \<Rightarrow> (string \<times> pyval) list \<Rightarrow> pyexc + pyval"

record handler =
  dir_self :: "string list"
  getattr_self :: "string \<Rightarrow> callable"
  dir_protected :: "string list"
  logger :: "(pyexc \<Rightarrow> pyexc option) option"

text \<open>
  \<^verbatim>\<open>dir(RequestHandlerMixin)\<close>: the three methods the class defines, and the names
  a new-style class has from \<^verbatim>\<open>object\<close> in CPython 2.7.
\<close>

definition object_dir :: "string list" where
  "object_dir =
     [''__class__'', ''__delattr__'', ''__doc__'', ''__format__'', ''__getattribute__'',
      ''__hash__'', ''__init__'', ''__new__'', ''__reduce__'', ''__reduce_ex__'',
      ''__repr__'', ''__setattr__'', ''__sizeof__'', ''__str__'', ''__subclasshook__'']"

definition RequestHandlerMixin_dir :: "string list" where
  "RequestHandlerMixin_dir =
     [''_get_protected_handler'', ''_validate_request'', ''handle_request'',
      ''__dict__'', ''__module__'', ''__weakref__''] @ object_dir"

text \<open>
  \<^verbatim>\<open>len(x)\<close>: defined on strings, lists and dictionaries, TypeError on None,
  booleans, numbers and plain objects.
\<close>

fun py_len :: "pyval \<Rightarrow> pyexc + nat" where
  "py_len (PStr s) = Inr (length s)"
| "py_len (PList xs) = Inr (length xs)"
| "py_len (PDict d) = Inr (length (remdups (map fst d)))"
| "py_len _ = Inl TypeError"

text \<open>\<^verbatim>\<open>x.get(key)\<close>: only a dictionary has the method.\<close>

fun py_get :: "pyval \<Rightarrow> string \<Rightarrow> pyexc + pyval" where
  "py_get (PDict d) key = Inr (dict_get d key)"
| "py_get _ key = Inl AttributeError"

text \<open>
  \<^verbatim>\<open>f(*params, **request_object)\<close>: \<^verbatim>\<open>*params\<close> iterates over \<open>params\<close>. A
  list gives its elements, a string its characters, a dictionary its keys; None, a
  boolean or a number is not iterable, and the call raises TypeError before
  \<open>f\<close> runs.
\<close>

fun star_args :: "pyval \<Rightarrow> pyexc + pyval list" where
  "star_args (PList xs) = Inr xs"
| "star_args (PStr s) = Inr (map (\<lambda>c. PStr [c]) s)"
| "star_args (PDict d) = Inr (map PStr (remdups (map fst d)))"
| "star_args _ = Inl TypeError"

fun star_star_kwargs :: "pyval \<Rightarrow> pyexc + (string \<times> pyval) list" where
  "star_star_kwargs (PDict d) = Inr d"
| "star_star_kwargs _ = Inl TypeError"

definition call :: "callable \<Rightarrow> pyval \<Rightarrow> pyval \<Rightarrow> pyexc + pyval" where
  "call f params request_object =
     (case star_args params of
        Inl e \<Rightarrow> Inl e
      | Inr args \<Rightarrow>
          (case star_star_kwargs request_object of
             Inl e \<Rightarrow> Inl e
           | Inr kwargs \<Rightarrow> f args kwargs))"

text \<open>
  The result of the dispatcher is the list of notifications that reached the logger,
  and either the exception that left \<^verbatim>\<open>handle_request\<close> (\<open>Inl\<close>) or the value it
  returned (\<open>Inr\<close>).
\<close>

type_synonym outcome = "pyexc list \<times> (pyexc + pyval)"

text \<open>
  The \<^verbatim>\<open>try\<close> block of lines 178 to 190. The clauses are tried in the order of the
  source: \<^verbatim>\<open>except TypeError\<close>, then \<^verbatim>\<open>except BaseJSONRPCException\<close>, then the
  bare \<^verbatim>\<open>except\<close>; the first clause whose class the exception is an instance of
  handles it. An exception raised inside a clause (by
  \<^verbatim>\<open>CustomException(e, request_id)\<close> or by the logger) is not caught by the later
  clauses.
\<close>

definition invoke :: "handler \<Rightarrow> string \<Rightarrow> pyval \<Rightarrow> pyval \<Rightarrow> pyval \<Rightarrow> outcome" where
  "invoke self method params request_object request_id =
     (let method_invoked = getattr_self self method in
      case call method_invoked params request_object of
        Inr invoked_result \<Rightarrow>
          if isinstance_SuccessResponse invoked_result then ([], Inr invoked_result)
          else ([], Inr (SuccessResponse invoked_result request_id))
      | Inl e \<Rightarrow>
          if isinstance_TypeError e then ([], Inr (invalidRequestObjecError request_id))
          else if isinstance_BaseJSONRPCException e then ([], CustomException e request_id)
          else
            (case logger self of
               None \<Rightarrow> ([], Inr (InternalError request_id))
             | Some exception \<Rightarrow>
                 (case exception e of
                    Some raised \<Rightarrow> ([e], Inl raised)
                  | None \<Rightarrow> ([e], Inr (InternalError request_id)))))"

text \<open>
  \<^verbatim>\<open>_validate_request\<close>. \<^verbatim>\<open>method in dir(self)\<close> compares the decoded value with
  attribute names: only a string can be equal to one.
\<close>

definition validate_request :: "handler \<Rightarrow> pyval \<Rightarrow> outcome" where
  "validate_request self request_object =
     (case py_len request_object of
        Inl e \<Rightarrow> ([], Inl e)
      | Inr n \<Rightarrow>
          if n < 1 then ([], Inr (InvalidJSONError PNone))
          else
            (case py_get request_object ''jsonrpc'' of
               Inl e \<Rightarrow> ([], Inl e)
             | Inr json_version \<Rightarrow>
                 if json_version \<noteq> PStr RPC_VERSION
                 then ([], Inr (invalidRequestObjecError PNone))
                 else
                   (case py_get request_object ''method'' of
                      Inl e \<Rightarrow> ([], Inl e)
                    | Inr method \<Rightarrow>
                   (case py_get request_object ''params'' of
                      Inl e \<Rightarrow> ([], Inl e)
                    | Inr params \<Rightarrow>
                   (case py_get request_object ''id'' of
                      Inl e \<Rightarrow> ([], Inl e)
                    | Inr request_id \<Rightarrow>
                        (let protected_methods = RequestHandlerMixin_dir @ dir_protected self in
                         case method of
                           PStr name \<Rightarrow>
                             if name \<in> set (dir_self self) \<and> name \<notin> set protected_methods
                             then invoke self name params request_object request_id
                             else ([], Inr (NonExistentMethodError request_id))
                         | _ \<Rightarrow> ([], Inr (NonExistentMethodError request_id))))))))"

text \<open>
  \<^verbatim>\<open>handle_request\<close>. \<^verbatim>\<open>json.loads\<close> belongs to the simplejson library and is a
  parameter: it returns the decoded value or raises. Only the decoding is inside the
  \<^verbatim>\<open>try\<close>; the call of \<^verbatim>\<open>_validate_request\<close> is after it.
\<close>

definition handle_request :: "(string \<Rightarrow> pyexc + pyval) \<Rightarrow> handler \<Rightarrow> string \<Rightarrow> outcome" where
  "handle_request loads self data =
     (case loads data of
        Inl e \<Rightarrow> ([], Inr (InvalidJSONError PNone))
      | Inr request \<Rightarrow> validate_request self request)"

section \<open>The encoder (lines 37 to 75)\<close>

text \<open>\<^verbatim>\<open>field.startswith('_')\<close>.\<close>

fun startswith_underscore :: "string \<Rightarrow> bool" where
  "startswith_underscore [] = False"
| "startswith_underscore (c # cs) = (c = CHR ''_'')"

text \<open>
  \<^verbatim>\<open>field in obj._exclude\<close>. The constructor sets \<^verbatim>\<open>_exclude\<close> to a list; an
  extension may put a dictionary (the test is on its keys) or a string (the test is for
  a substring) there. None, a boolean, a number or a plain object is not a container,
  and the test raises TypeError.
\<close>

fun is_substring :: "string \<Rightarrow> string \<Rightarrow> bool" where
  "is_substring f [] = (f = [])"
| "is_substring f (c # s) = (take (length f) (c # s) = f \<or> is_substring f s)"

fun contains_name :: "pyval \<Rightarrow> string \<Rightarrow> pyexc + bool" where
  "contains_name (PList xs) field = Inr (PStr field \<in> set xs)"
| "contains_name (PDict d) field = Inr (field \<in> fst ` set d)"
| "contains_name (PStr s) field = Inr (is_substring field s)"
| "contains_name _ field = Inl TypeError"

text \<open>
  The loop of \<^verbatim>\<open>ResourceResponseJSONEncoder.default\<close> over \<^verbatim>\<open>dir(obj)\<close>, with the
  dictionary \<^verbatim>\<open>response\<close> as accumulator. \<^verbatim>\<open>and\<close> evaluates its second operand
  only when the first holds, so \<^verbatim>\<open>obj._exclude\<close> is read for public names only.
\<close>

fun default_loop ::
  "(string \<times> pyval) list \<Rightarrow> string list \<Rightarrow> (string \<times> pyval) list \<Rightarrow>
   pyexc + (string \<times> pyval) list"
where
  "default_loop attrs [] response = Inr response"
| "default_loop attrs (field # rest) response =
     (if startswith_underscore field then default_loop attrs rest response
      else
        (case map_of attrs ''_exclude'' of
           None \<Rightarrow> Inl AttributeError
         | Some exclude \<Rightarrow>
             (case contains_name exclude field of
                Inl e \<Rightarrow> Inl e
              | Inr True \<Rightarrow> default_loop attrs rest response
              | Inr False \<Rightarrow>
                  (case map_of attrs field of
                     None \<Rightarrow> Inl AttributeError
                   | Some v \<Rightarrow> default_loop attrs rest (AList.update field v response)))))"

text \<open>
  \<^verbatim>\<open>ResourceResponseJSONEncoder.default\<close>. \<^verbatim>\<open>dir(obj)\<close> lists every attribute name
  once; its order does not matter, the target being a dictionary. For anything that is
  not a response object the method defers to \<^verbatim>\<open>json.JSONEncoder.default\<close>, which
  raises TypeError.
\<close>

fun ResourceResponseJSONEncoder_default :: "pyval \<Rightarrow> pyexc + pyval" where
  "ResourceResponseJSONEncoder_default (PObj c attrs) =
     (if isinstance_BaseResourceResponse (PObj c attrs)
      then
        (case default_loop attrs (remdups (map fst attrs)) [(''jsonrpc'', PStr RPC_VERSION)] of
           Inl e \<Rightarrow> Inl e
         | Inr response \<Rightarrow> Inr (PDict response))
      else Inl TypeError)"
| "ResourceResponseJSONEncoder_default _ = Inl TypeError"




section \<open>The text level of the codec\<close>

text \<open>
  Modelled from the spec: the text level of the Envelope Codec (spec 4.1, Encode and
  Decode), which the source does not contain: \<^verbatim>\<open>__str__\<close> and the tests hand it
  to \<^verbatim>\<open>json.dumps\<close> and \<^verbatim>\<open>json.loads\<close> of the simplejson library. The text
  format is JSON, written the way the library writes it by default: members separated
  by a comma and a space, a colon and a space after a key, every character outside the
  printable ASCII range escaped, integers in decimal. The members of a dictionary are
  written in the order of the list that represents it; Python leaves that order open.
  A string is text whose characters are the code points below 256.

  Floating-point numbers are not part of this model: the text of a float is the one
  Python's \<^verbatim>\<open>repr\<close> gives the IEEE double (or \<^verbatim>\<open>NaN\<close>, \<^verbatim>\<open>Infinity\<close>, or a
  ValueError, by the library's \<^verbatim>\<open>allow_nan\<close>), and reading it back rounds. Both
  conversions are parameters, \<open>float_repr\<close> of the writer and \<open>float_of\<close> of the
  parser.
\<close>

subsection \<open>Writing\<close>




definition hex_digit :: "nat \<Rightarrow> char" where
  "hex_digit n = ''0123456789abcdef'' ! n"

definition escape_char :: "char \<Rightarrow> string" where
  "escape_char c =
     (if c = CHR 0x22 then [CHR 0x5C, CHR 0x22]
      else if c = CHR 0x5C then [CHR 0x5C, CHR 0x5C]
      else if c = CHR 0x08 then [CHR 0x5C, CHR ''b'']
      else if c = CHR 0x0C then [CHR 0x5C, CHR ''f'']
      else if c = CHR 0x0A then [CHR 0x5C, CHR ''n'']
      else if c = CHR 0x0D then [CHR 0x5C, CHR ''r'']
      else if c = CHR 0x09 then [CHR 0x5C, CHR ''t'']
      else if 32 \<le> (of_char c :: nat) \<and> (of_char c :: nat) \<le> 126 then [c]
      else [CHR 0x5C, CHR ''u'', CHR ''0'', CHR ''0'',
            hex_digit (of_char c div 16), hex_digit (of_char c mod 16)])"

definition write_string :: "string \<Rightarrow> string" where
  "write_string s = CHR 0x22 # concat (map escape_char s) @ [CHR 0x22]"



subsection \<open>Reading\<close>

definition is_ws :: "char \<Rightarrow> bool" where
  "is_ws c \<longleftrightarrow> c = CHR '' '' \<or> c = CHR 0x09 \<or> c = CHR 0x0A \<or> c = CHR 0x0D"

definition skip_ws :: "string \<Rightarrow> string" where
  "skip_ws s = dropWhile is_ws s"

definition is_digit :: "char \<Rightarrow> bool" where
  "is_digit c \<longleftrightarrow> c \<in> set ''0123456789''"


definition hex_val :: "char \<Rightarrow> nat option" where
  "hex_val c =
     (if is_digit c then Some (of_char c - 48)
      else if c \<in> set ''abcdef'' then Some (of_char c - 87)
      else if c \<in> set ''ABCDEF'' then Some (of_char c - 55)
      else None)"

definition unescape :: "char \<Rightarrow> char option" where
  "unescape e =
     (if e = CHR 0x22 then Some (CHR 0x22)
      else if e = CHR 0x5C then Some (CHR 0x5C)
      else if e = CHR ''/'' then Some (CHR ''/'')
      else if e = CHR ''b'' then Some (CHR 0x08)
      else if e = CHR ''f'' then Some (CHR 0x0C)
      else if e = CHR ''n'' then Some (CHR 0x0A)
      else if e = CHR ''r'' then Some (CHR 0x0D)
      else if e = CHR ''t'' then Some (CHR 0x09)
      else None)"

definition hex4 :: "string \<Rightarrow> nat option" where
  "hex4 hs =
     (case map hex_val hs of
        [Some a, Some b, Some c, Some d] \<Rightarrow> Some (((a * 16 + b) * 16 + c) * 16 + d)
      | _ \<Rightarrow> None)"

text \<open>
  The body of a string, after the opening quote: up to the closing quote, with the
  escapes of JSON. A raw control character is refused. A \<^verbatim>\<open>\u\<close> escape of a code
  point of 256 or more has no character in this model and is refused here.
\<close>

function scanstring :: "string \<Rightarrow> (string \<times> string) option" where
  "scanstring [] = None"
| "scanstring (c # s) =
     (if c = CHR 0x22 then Some ([], s)
      else if c = CHR 0x5C then
        (case s of
           [] \<Rightarrow> None
         | e # s' \<Rightarrow>
             if e = CHR ''u'' then
               (case hex4 (take 4 s') of
                  None \<Rightarrow> None
                | Some n \<Rightarrow>
                    if n < 256 then
                      (case scanstring (drop 4 s') of
                         None \<Rightarrow> None
                       | Some (t, rest) \<Rightarrow> Some (char_of n # t, rest))
                    else None)
             else
               (case unescape e of
                  None \<Rightarrow> None
                | Some ch \<Rightarrow>
                    (case scanstring s' of
                       None \<Rightarrow> None
                     | Some (t, rest) \<Rightarrow> Some (ch # t, rest))))
      else if (of_char c :: nat) < 32 then None
      else
        (case scanstring s of
           None \<Rightarrow> None
         | Some (t, rest) \<Rightarrow> Some (c # t, rest)))"
  by pat_completeness auto
termination
  by (relation "measure length") auto













subsection \<open>Encoding a response and reading it back\<close>



section \<open>Handlers and decoders used as concrete inputs\<close>

text \<open>
  The decoder is a library function, so a concrete run fixes what it returns on the
  texts it is given: a table from a text to the value \<^verbatim>\<open>json.loads\<close> decodes it
  to. Any text outside the table is taken as undecodable.
\<close>

definition decoder_table :: "(string \<times> pyval) list \<Rightarrow> string \<Rightarrow> pyexc + pyval" where
  "decoder_table table data =
     (case map_of table data of
        Some v \<Rightarrow> Inr v
      | None \<Rightarrow> Inl (OtherException ''JSONDecodeError''))"

text \<open>
  An attribute that is not an operation. Every name of \<^verbatim>\<open>RequestHandlerMixin\<close>
  itself is in the guard list and is never called; an attribute that is not callable
  (a logger object) raises TypeError when it is called.
\<close>

definition undispatched :: callable where
  "undispatched args kwargs = Inl TypeError"

text \<open>
  A plain \<^verbatim>\<open>RequestHandlerMixin()\<close>, as the first test builds it:
  \<^verbatim>\<open>_get_protected_handler\<close> returns None, and \<^verbatim>\<open>dir(None)\<close> lists the names of
  \<^verbatim>\<open>object\<close>; there is no \<^verbatim>\<open>_logger\<close>.
\<close>

definition RequestHandlerMixin_instance :: handler where
  "RequestHandlerMixin_instance =
     \<lparr>dir_self = RequestHandlerMixin_dir, getattr_self = (\<lambda>name. undispatched),
      dir_protected = object_dir, logger = None\<rparr>"

text \<open>
  \<^verbatim>\<open>SimpleController\<close> and \<^verbatim>\<open>MyException\<close> of tests/parsing/test_parsing.py. The
  methods are called bound, with the request as keyword arguments: a wrong number of
  positional arguments, or a keyword that names a parameter already bound, raises
  TypeError.
\<close>

definition MyException :: pyexc where
  "MyException = JSONRPCException (Some (PInt 1)) (PStr ''My Custom Exception'')"

definition echo :: callable where
  "echo args kwargs =
     (if ''self'' \<in> fst ` set kwargs then Inl TypeError
      else case args of
        [] \<Rightarrow> (case map_of kwargs ''message'' of Some v \<Rightarrow> Inr v | None \<Rightarrow> Inl TypeError)
      | [message] \<Rightarrow> if ''message'' \<in> fst ` set kwargs then Inl TypeError else Inr message
      | _ \<Rightarrow> Inl TypeError)"

definition custom_exception :: callable where
  "custom_exception args kwargs =
     (if ''self'' \<in> fst ` set kwargs then Inl TypeError
      else case args of [] \<Rightarrow> Inl MyException | _ \<Rightarrow> Inl TypeError)"

definition internal_error :: callable where
  "internal_error args kwargs =
     (if ''self'' \<in> fst ` set kwargs then Inl TypeError
      else case args of [] \<Rightarrow> Inl (OtherException ''Exception'') | _ \<Rightarrow> Inl TypeError)"

definition SimpleController_getattr :: "string \<Rightarrow> callable" where
  "SimpleController_getattr name =
     (if name = ''echo'' then echo
      else if name = ''custom_exception'' then custom_exception
      else if name = ''internal_error'' then internal_error
      else undispatched)"

definition SimpleController :: handler where
  "SimpleController =
     \<lparr>dir_self = [''custom_exception'', ''echo'', ''internal_error''] @ RequestHandlerMixin_dir,
      getattr_self = SimpleController_getattr,
      dir_protected = object_dir, logger = None\<rparr>"

text \<open>
  A handler with one operation that takes no positional argument and returns a plain
  value, \<^verbatim>\<open>def ping(self, **kwargs): return "pong"\<close>.
\<close>

definition ping :: callable where
  "ping args kwargs =
     (if ''self'' \<in> fst ` set kwargs then Inl TypeError
      else case args of [] \<Rightarrow> Inr (PStr ''pong'') | _ \<Rightarrow> Inl TypeError)"

definition PingController :: handler where
  "PingController =
     \<lparr>dir_self = [''ping''] @ RequestHandlerMixin_dir,
      getattr_self = (\<lambda>name. if name = ''ping'' then ping else undispatched),
      dir_protected = object_dir, logger = None\<rparr>"

text \<open>
  \<^verbatim>\<open>SimpleController\<close> with a \<^verbatim>\<open>_logger\<close> attribute: one whose
  \<^verbatim>\<open>exception\<close> method returns, and one whose \<^verbatim>\<open>exception\<close> method raises
  IOError (a log file that cannot be written). The attribute is an instance attribute,
  so \<^verbatim>\<open>dir(self)\<close> lists it; a logger object is not callable.
\<close>

definition quiet_logger :: "pyexc \<Rightarrow> pyexc option" where
  "quiet_logger notification = None"

definition failing_logger :: "pyexc \<Rightarrow> pyexc option" where
  "failing_logger notification = Some (OtherException ''IOError'')"

definition LoggingController :: handler where
  "LoggingController =
     SimpleController\<lparr>dir_self := ''_logger'' # dir_self SimpleController,
       logger := Some quiet_logger\<rparr>"

definition FailingLoggerController :: handler where
  "FailingLoggerController =
     SimpleController\<lparr>dir_self := ''_logger'' # dir_self SimpleController,
       logger := Some failing_logger\<rparr>"

text \<open>
  A handler with an operation whose body raises a TypeError of its own,
  \<^verbatim>\<open>def measure(self, **kwargs): return len(None)\<close>, and a logger that returns.
\<close>

definition measure_op :: callable where
  "measure_op args kwargs =
     (if ''self'' \<in> fst ` set kwargs then Inl TypeError
      else case args of [] \<Rightarrow> Inl TypeError | _ \<Rightarrow> Inl TypeError)"

definition MeasureController :: handler where
  "MeasureController =
     \<lparr>dir_self = [''_logger'', ''measure''] @ RequestHandlerMixin_dir,
      getattr_self = (\<lambda>name. if name = ''measure'' then measure_op else undispatched),
      dir_protected = object_dir, logger = Some quiet_logger\<rparr>"

text \<open>The request texts of the concrete runs, with the values they decode to.\<close>

definition ping_text :: string where
  "ping_text = ''{\"jsonrpc\": \"2.0\", \"method\": \"ping\", \"id\": 1}''"

definition ping_request :: "(string \<times> pyval) list" where
  "ping_request = [(''jsonrpc'', PStr ''2.0''), (''method'', PStr ''ping''), (''id'', PInt 1)]"

definition ping_empty_text :: string where
  "ping_empty_text = ''{\"jsonrpc\": \"2.0\", \"method\": \"ping\", \"params\": [], \"id\": 1}''"

definition ping_empty_request :: "(string \<times> pyval) list" where
  "ping_empty_request =
     [(''jsonrpc'', PStr ''2.0''), (''method'', PStr ''ping''), (''params'', PList []),
      (''id'', PInt 1)]"

definition guarded_text :: string where
  "guarded_text = ''{\"jsonrpc\": \"2.0\", \"method\": \"handle_request\", \"params\": \"123\"}''"

definition guarded_request :: "(string \<times> pyval) list" where
  "guarded_request =
     [(''jsonrpc'', PStr ''2.0''), (''method'', PStr ''handle_request''),
      (''params'', PStr ''123'')]"

definition custom_exception_text :: string where
  "custom_exception_text =
     ''{\"jsonrpc\": \"2.0\", \"method\": \"custom_exception\", \"params\": [], \"id\": 4}''"

definition custom_exception_request :: "(string \<times> pyval) list" where
  "custom_exception_request =
     [(''jsonrpc'', PStr ''2.0''), (''method'', PStr ''custom_exception''),
      (''params'', PList []), (''id'', PInt 4)]"

definition internal_error_text :: string where
  "internal_error_text =
     ''{\"jsonrpc\": \"2.0\", \"method\": \"internal_error\", \"params\": [], \"id\": 4}''"

definition internal_error_request :: "(string \<times> pyval) list" where
  "internal_error_request =
     [(''jsonrpc'', PStr ''2.0''), (''method'', PStr ''internal_error''),
      (''params'', PList []), (''id'', PInt 4)]"

definition measure_text :: string where
  "measure_text = ''{\"jsonrpc\": \"2.0\", \"method\": \"measure\", \"params\": [], \"id\": 9}''"

definition measure_request :: "(string \<times> pyval) list" where
  "measure_request =
     [(''jsonrpc'', PStr ''2.0''), (''method'', PStr ''measure''),
      (''params'', PList []), (''id'', PInt 9)]"

definition internal_error_text_7 :: string where
  "internal_error_text_7 =
     ''{\"jsonrpc\": \"2.0\", \"method\": \"internal_error\", \"params\": [], \"id\": 7}''"

definition internal_error_request_7 :: "(string \<times> pyval) list" where
  "internal_error_request_7 =
     [(''jsonrpc'', PStr ''2.0''), (''method'', PStr ''internal_error''),
      (''params'', PList []), (''id'', PInt 7)]"





text \<open>
  A handler whose operation returns an instance of a subclass of
  \<^verbatim>\<open>SuccessResponse\<close> that adds an \<^verbatim>\<open>error\<close> attribute to the result:
  \<^verbatim>\<open>
  class ResultWithError(SuccessResponse):
      def __init__(self, result, error):
          SuccessResponse.__init__(self, result)
          self.error = error

  def report(self, **kwargs):
      return ResultWithError("done", "partial")
  \<close>
\<close>

definition annotated_response :: pyval where
  "annotated_response =
     PObj SuccessResponse_subclass (BaseResourceResponse_init PNone @
       [(''result'', PStr ''done''), (''error'', PStr ''partial'')])"

definition report :: callable where
  "report args kwargs =
     (if ''self'' \<in> fst ` set kwargs then Inl TypeError
      else case args of [] \<Rightarrow> Inr annotated_response | _ \<Rightarrow> Inl TypeError)"

definition ReportController :: handler where
  "ReportController =
     \<lparr>dir_self = [''report''] @ RequestHandlerMixin_dir,
      getattr_self = (\<lambda>name. if name = ''report'' then report else undispatched),
      dir_protected = object_dir, logger = None\<rparr>"

definition report_text :: string where
  "report_text = ''{\"jsonrpc\": \"2.0\", \"method\": \"report\", \"params\": [], \"id\": 5}''"

definition report_request :: "(string \<times> pyval) list" where
  "report_request =
     [(''jsonrpc'', PStr ''2.0''), (''method'', PStr ''report''),
      (''params'', PList []), (''id'', PInt 5)]"

definition echo_text :: string where
  "echo_text = ''{\"jsonrpc\": \"2.0\", \"method\": \"echo\", \"params\": [\"HI\"], \"id\": 4}''"

definition echo_request :: "(string \<times> pyval) list" where
  "echo_request =
     [(''jsonrpc'', PStr ''2.0''), (''method'', PStr ''echo''),
      (''params'', PList [PStr ''HI'']), (''id'', PInt 4)]"



text \<open>
  A handler whose operation raises an application exception that is also a TypeError:
  \<^verbatim>\<open>
  class BadParams(BaseJSONRPCException, TypeError):
      code = 2
      message = "Bad parameters"

  def check(self, **kwargs):
      raise BadParams()
  \<close>
\<close>

definition BadParams :: pyexc where
  "BadParams = JSONRPCTypeError (Some (PInt 2)) (PStr ''Bad parameters'')"

definition check_op :: callable where
  "check_op args kwargs =
     (if ''self'' \<in> fst ` set kwargs then Inl TypeError
      else case args of [] \<Rightarrow> Inl BadParams | _ \<Rightarrow> Inl TypeError)"

definition CheckController :: handler where
  "CheckController =
     \<lparr>dir_self = [''check''] @ RequestHandlerMixin_dir,
      getattr_self = (\<lambda>name. if name = ''check'' then check_op else undispatched),
      dir_protected = object_dir, logger = None\<rparr>"

definition check_text :: string where
  "check_text = ''{\"jsonrpc\": \"2.0\", \"method\": \"check\", \"params\": [], \"id\": 4}''"

definition check_request :: "(string \<times> pyval) list" where
  "check_request =
     [(''jsonrpc'', PStr ''2.0''), (''method'', PStr ''check''),
      (''params'', PList []), (''id'', PInt 4)]"

section \<open>Vocabulary of the statements\<close>

text \<open>
  A decoded object passes the two envelope checks when it is not empty and its
  \<^verbatim>\<open>jsonrpc\<close> member is the string \<^verbatim>\<open>2.0\<close>. A name is dispatchable on a handler
  when it passes the test of line 176.
\<close>

definition valid_envelope :: "(string \<times> pyval) list \<Rightarrow> bool" where
  "valid_envelope d \<longleftrightarrow> d \<noteq> [] \<and> dict_get d ''jsonrpc'' = PStr ''2.0''"

definition dispatchable :: "handler \<Rightarrow> string \<Rightarrow> bool" where
  "dispatchable self name \<longleftrightarrow>
     name \<in> set (dir_self self) \<and> name \<notin> set (RequestHandlerMixin_dir @ dir_protected self)"

text \<open>
  What a response carries on the wire is what the encoder puts in the dictionary it
  builds for it. A response is well formed when it carries the version tag, an
  identifier, and exactly one of \<^verbatim>\<open>result\<close> and \<^verbatim>\<open>error\<close>.
\<close>

definition wire_field :: "pyval \<Rightarrow> string \<Rightarrow> pyval option" where
  "wire_field r field =
     (case ResourceResponseJSONEncoder_default r of
        Inr (PDict response) \<Rightarrow> map_of response field
      | _ \<Rightarrow> None)"

definition well_formed_response :: "pyval \<Rightarrow> bool" where
  "well_formed_response r \<longleftrightarrow>
     wire_field r ''jsonrpc'' = Some (PStr ''2.0'') \<and>
     wire_field r ''id'' \<noteq> None \<and>
     (wire_field r ''result'' \<noteq> None) \<noteq> (wire_field r ''error'' \<noteq> None)"





definition value_end :: "string \<Rightarrow> bool" where
  "value_end rest \<longleftrightarrow> rest = [] \<or> hd rest = CHR '','' \<or> hd rest = CHR '']'' \<or> hd rest = CHR ''}''"




section \<open>Properties of the dispatcher\<close>

subsection \<open>The fields of the responses the module builds\<close>

lemma InvalidJSONError_fields:
  "error_code (InvalidJSONError i) = Some (PInt (- 32700))"
  "error_message (InvalidJSONError i) = Some (PStr ''Parse error.'')"
  "response_id (InvalidJSONError i) = Some i"
  "response_result (InvalidJSONError i) = None"
  by (simp_all add: InvalidJSONError_def BaseResourceResponse_init_def error_code_def
      error_message_def response_id_def response_result_def)

lemma invalidRequestObjecError_fields:
  "error_code (invalidRequestObjecError i) = Some (PInt (- 32600))"
  "error_message (invalidRequestObjecError i) = Some (PStr ''Invalid Request.'')"
  "response_id (invalidRequestObjecError i) = Some i"
  "response_result (invalidRequestObjecError i) = None"
  by (simp_all add: invalidRequestObjecError_def BaseResourceResponse_init_def error_code_def
      error_message_def response_id_def response_result_def)

lemma NonExistentMethodError_fields:
  "error_code (NonExistentMethodError i) = Some (PInt (- 32601))"
  "error_message (NonExistentMethodError i) = Some (PStr ''Method not found.'')"
  "response_id (NonExistentMethodError i) = Some i"
  "response_result (NonExistentMethodError i) = None"
  by (simp_all add: NonExistentMethodError_def BaseResourceResponse_init_def error_code_def
      error_message_def response_id_def response_result_def)

lemma InternalError_fields:
  "error_code (InternalError i) = Some (PInt (- 32603))"
  "error_message (InternalError i) = Some (PStr ''Internal error.'')"
  "response_id (InternalError i) = Some i"
  "response_result (InternalError i) = None"
  by (simp_all add: InternalError_def BaseResourceResponse_init_def error_code_def
      error_message_def response_id_def response_result_def)

lemma SuccessResponse_fields:
  "response_result (SuccessResponse v i) = Some v"
  "response_id (SuccessResponse v i) = Some i"
  "response_error (SuccessResponse v i) = None"
  by (simp_all add: SuccessResponse_def BaseResourceResponse_init_def response_error_def
      response_id_def response_result_def)

subsection \<open>Payloads that are not objects\<close>

text \<open>
  What \<^verbatim>\<open>_validate_request\<close> does with each shape of decoded value: \<^verbatim>\<open>len\<close> raises
  TypeError on None, booleans and numbers; an empty container is answered with
  \<^verbatim>\<open>InvalidJSONError\<close>; a non-empty string or list has no \<^verbatim>\<open>get\<close>.
\<close>

lemma validate_request_no_len:
  "py_len v = Inl e \<Longrightarrow> validate_request self v = ([], Inl e)"
  by (simp add: validate_request_def)

lemma validate_request_empty:
  "py_len v = Inr 0 \<Longrightarrow> validate_request self v = ([], Inr (InvalidJSONError PNone))"
  by (simp add: validate_request_def)

lemma validate_request_no_get:
  "py_len v = Inr (Suc n) \<Longrightarrow> py_get v ''jsonrpc'' = Inl e \<Longrightarrow>
   validate_request self v = ([], Inl e)"
  by (simp add: validate_request_def)

lemma py_len_dict: "d \<noteq> [] \<Longrightarrow> \<exists>n. py_len (PDict d) = Inr (Suc n)"
proof -
  assume "d \<noteq> []"
  then have "remdups (map fst d) \<noteq> []" by simp
  then show ?thesis by (cases "remdups (map fst d)") simp_all
qed

lemma validate_request_version:
  assumes "d \<noteq> []" and "dict_get d ''jsonrpc'' \<noteq> PStr ''2.0''"
  shows "validate_request self (PDict d) = ([], Inr (invalidRequestObjecError PNone))"
proof -
  obtain n where "py_len (PDict d) = Inr (Suc n)"
    using py_len_dict [OF assms(1)] by blast
  then show ?thesis
    using assms(2) by (simp add: validate_request_def RPC_VERSION_def)
qed

lemma handle_request_non_object:
  assumes "loads data = Inr v"
  shows "v = PNone \<or> v \<in> range PBool \<or> v \<in> range PInt \<or> v \<in> range PFloat \<Longrightarrow>
           handle_request loads self data = ([], Inl TypeError)"
    and "(\<exists>s. s \<noteq> [] \<and> v = PStr s) \<or> (\<exists>xs. xs \<noteq> [] \<and> v = PList xs) \<Longrightarrow>
           handle_request loads self data = ([], Inl AttributeError)"
proof -
  have h: "handle_request loads self data = validate_request self v"
    using assms by (simp add: handle_request_def)
  show "handle_request loads self data = ([], Inl TypeError)"
    if "v = PNone \<or> v \<in> range PBool \<or> v \<in> range PInt \<or> v \<in> range PFloat"
    using that by (auto simp: h validate_request_no_len)
  show "handle_request loads self data = ([], Inl AttributeError)"
    if "(\<exists>s. s \<noteq> [] \<and> v = PStr s) \<or> (\<exists>xs. xs \<noteq> [] \<and> v = PList xs)"
  proof -
    from that obtain n where "py_len v = Inr (Suc n)" and "py_get v ''jsonrpc'' = Inl AttributeError"
      by (cases v) (auto simp: neq_Nil_conv)
    then show ?thesis by (simp add: h validate_request_no_get)
  qed
qed

text \<open>
  C1. The claim: for every raw text, handler and protected companion,
  \<^verbatim>\<open>handle_request\<close> returns a Response and lets no exception through, in particular
  for payloads that decode to null, a number, a string or a list. The code does not do
  that: the text \<^verbatim>\<open>null\<close> decodes to None, the \<^verbatim>\<open>try\<close> of \<^verbatim>\<open>handle_request\<close> is
  already left, and \<^verbatim>\<open>len(None)\<close> in \<^verbatim>\<open>_validate_request\<close> raises a TypeError
  that reaches the caller.
\<close>

theorem C1_null_payload_raises:
  "handle_request (decoder_table [(''null'', PNone)]) RequestHandlerMixin_instance ''null''
     = ([], Inl TypeError)"
  by (simp add: handle_request_def decoder_table_def validate_request_def)

text \<open>
  C2, as the spec states it, fails: the empty object \<^verbatim>\<open>{}\<close> decodes, is structurally
  invalid, and is answered with code -32700, not -32600.
\<close>

theorem C2_empty_object_counterexample:
  "map_sum id error_code
     (snd (handle_request (decoder_table [(''{}'', PDict [])]) RequestHandlerMixin_instance ''{}''))
     = Inr (Some (PInt (- 32700)))"
  by (simp add: handle_request_def decoder_table_def validate_request_def
      InvalidJSONError_fields)

text \<open>
  C2, amended. A payload that decodes to a non-empty object whose \<^verbatim>\<open>jsonrpc\<close> member
  is missing or is not the string \<^verbatim>\<open>2.0\<close> is answered with the Error variant of code
  -32600 and a null identifier. A payload that decodes to an empty object, an empty list
  or an empty string is answered with the Error variant of code -32700 and a null
  identifier.
\<close>

theorem C2_invalid_request:
  assumes "loads data = Inr v"
  shows "(\<forall>d. v = PDict d \<and> d \<noteq> [] \<and> dict_get d ''jsonrpc'' \<noteq> PStr ''2.0'' \<longrightarrow>
            handle_request loads self data = ([], Inr (invalidRequestObjecError PNone))) \<and>
         (v = PDict [] \<or> v = PList [] \<or> v = PStr [] \<longrightarrow>
            handle_request loads self data = ([], Inr (InvalidJSONError PNone))) \<and>
         error_code (invalidRequestObjecError PNone) = Some (PInt (- 32600)) \<and>
         response_id (invalidRequestObjecError PNone) = Some PNone \<and>
         error_code (InvalidJSONError PNone) = Some (PInt (- 32700)) \<and>
         response_id (InvalidJSONError PNone) = Some PNone"
proof -
  have "handle_request loads self data = validate_request self v"
    using assms by (simp add: handle_request_def)
  moreover have "v = PDict [] \<or> v = PList [] \<or> v = PStr [] \<Longrightarrow> py_len v = Inr 0"
    by auto
  ultimately show ?thesis
    by (auto simp: validate_request_version validate_request_empty
        invalidRequestObjecError_fields InvalidJSONError_fields)
qed

theorem C2_invalid_request_witness:
  "handle_request (decoder_table [(''{\"hi\": 1}'', PDict [(''hi'', PInt 1)])])
     RequestHandlerMixin_instance ''{\"hi\": 1}'' = ([], Inr (invalidRequestObjecError PNone)) \<and>
   handle_request (decoder_table [(''[]'', PList [])]) RequestHandlerMixin_instance ''[]''
     = ([], Inr (InvalidJSONError PNone))"
proof -
  have a: "decoder_table [(''{\"hi\": 1}'', PDict [(''hi'', PInt 1)])] ''{\"hi\": 1}''
             = Inr (PDict [(''hi'', PInt 1)])"
    by (simp add: decoder_table_def)
  have b: "decoder_table [(''[]'', PList [])] ''[]'' = Inr (PList [])"
    by (simp add: decoder_table_def)
  have c: "dict_get [(''hi'', PInt 1)] ''jsonrpc'' \<noteq> PStr ''2.0''"
    by (simp add: dict_get_def)
  show ?thesis
    using C2_invalid_request [of "decoder_table [(''{\"hi\": 1}'', PDict [(''hi'', PInt 1)])]"
        "''{\"hi\": 1}''" "PDict [(''hi'', PInt 1)]" RequestHandlerMixin_instance]
      C2_invalid_request [of "decoder_table [(''[]'', PList [])]" "''[]''" "PList []"
        RequestHandlerMixin_instance] a b c
    by simp
qed

subsection \<open>Requests that pass the envelope checks\<close>

lemma validate_request_valid:
  assumes "valid_envelope d"
  shows "validate_request self (PDict d) =
     (case dict_get d ''method'' of
        PStr name \<Rightarrow>
          if dispatchable self name
          then invoke self name (dict_get d ''params'') (PDict d) (dict_get d ''id'')
          else ([], Inr (NonExistentMethodError (dict_get d ''id'')))
      | _ \<Rightarrow> ([], Inr (NonExistentMethodError (dict_get d ''id''))))"
proof -
  from assms have "d \<noteq> []" and v: "dict_get d ''jsonrpc'' = PStr ''2.0''"
    by (simp_all add: valid_envelope_def)
  then obtain n where "py_len (PDict d) = Inr (Suc n)"
    using py_len_dict by blast
  then show ?thesis
    using v by (simp add: validate_request_def RPC_VERSION_def dispatchable_def
        split: pyval.splits)
qed

lemma handle_request_resolved:
  assumes "loads data = Inr (PDict d)" and "valid_envelope d"
    and "dict_get d ''method'' = PStr name" and "dispatchable self name"
  shows "handle_request loads self data =
           invoke self name (dict_get d ''params'') (PDict d) (dict_get d ''id'')"
  using assms by (simp add: handle_request_def validate_request_valid)

lemma handle_request_unresolved:
  assumes "loads data = Inr (PDict d)" and "valid_envelope d"
    and "\<forall>name. dict_get d ''method'' = PStr name \<longrightarrow> \<not> dispatchable self name"
  shows "handle_request loads self data = ([], Inr (NonExistentMethodError (dict_get d ''id'')))"
  using assms by (simp add: handle_request_def validate_request_valid split: pyval.splits)

lemma invoke_call:
  "invoke self name params request_object request_id =
     (case call (getattr_self self name) params request_object of
        Inr invoked_result \<Rightarrow>
          if isinstance_SuccessResponse invoked_result then ([], Inr invoked_result)
          else ([], Inr (SuccessResponse invoked_result request_id))
      | Inl TypeError \<Rightarrow> ([], Inr (invalidRequestObjecError request_id))
      | Inl (JSONRPCException code message) \<Rightarrow>
          ([], CustomException (JSONRPCException code message) request_id)
      | Inl (JSONRPCTypeError code message) \<Rightarrow>
          ([], Inr (invalidRequestObjecError request_id))
      | Inl (OtherException cls) \<Rightarrow>
          (case logger self of
             None \<Rightarrow> ([], Inr (InternalError request_id))
           | Some exception \<Rightarrow>
               (case exception (OtherException cls) of
                  Some raised \<Rightarrow> ([OtherException cls], Inl raised)
                | None \<Rightarrow> ([OtherException cls], Inr (InternalError request_id)))))"
  by (simp add: invoke_def split: sum.splits pyexc.splits)

lemma call_args:
  "star_args params = Inr args \<Longrightarrow> call f params (PDict d) = f args d"
  by (simp add: call_def)

lemma call_not_iterable:
  "star_args params = Inl e \<Longrightarrow> call f params request_object = Inl e"
  by (simp add: call_def)

subsection \<open>Concrete facts about the example handlers\<close>

lemma valid_envelope_examples:
  "valid_envelope ping_request" "valid_envelope ping_empty_request"
  "valid_envelope guarded_request" "valid_envelope custom_exception_request"
  "valid_envelope internal_error_request" "valid_envelope measure_request"
  "valid_envelope internal_error_request_7"
  by (simp_all add: valid_envelope_def dict_get_def ping_request_def ping_empty_request_def
      guarded_request_def custom_exception_request_def internal_error_request_def
      measure_request_def internal_error_request_7_def)

lemma decoder_table_single: "decoder_table [(text, v)] text = Inr v"
  by (simp add: decoder_table_def)

lemma dispatchable_ping: "dispatchable PingController ''ping''"
  by (simp add: dispatchable_def PingController_def RequestHandlerMixin_dir_def object_dir_def)

lemma dispatchable_SimpleController:
  "dispatchable SimpleController ''echo''"
  "dispatchable SimpleController ''custom_exception''"
  "dispatchable SimpleController ''internal_error''"
  by (simp_all add: dispatchable_def SimpleController_def RequestHandlerMixin_dir_def
      object_dir_def)

lemma dispatchable_with_logger:
  "dispatchable LoggingController ''internal_error''"
  "dispatchable FailingLoggerController ''internal_error''"
  by (simp_all add: dispatchable_def LoggingController_def FailingLoggerController_def
      SimpleController_def RequestHandlerMixin_dir_def object_dir_def)

lemma dispatchable_check: "dispatchable CheckController ''check''"
  by (simp add: dispatchable_def CheckController_def RequestHandlerMixin_dir_def object_dir_def)

lemma dispatchable_measure: "dispatchable MeasureController ''measure''"
  by (simp add: dispatchable_def MeasureController_def RequestHandlerMixin_dir_def
      object_dir_def)

subsection \<open>Absent params\<close>

text \<open>
  C3, as the spec states it, fails: a request without \<^verbatim>\<open>params\<close> naming an operation
  that takes no positional argument is answered with the Error variant of code -32600,
  not with a Success variant.
\<close>

theorem C3_absent_params_counterexample:
  "map_sum id error_code
     (snd (handle_request (decoder_table [(ping_text, PDict ping_request)]) PingController
        ping_text))
     = Inr (Some (PInt (- 32600)))"
proof -
  have "handle_request (decoder_table [(ping_text, PDict ping_request)]) PingController ping_text
          = invoke PingController ''ping'' (dict_get ping_request ''params'') (PDict ping_request)
              (dict_get ping_request ''id'')"
    by (rule handle_request_resolved [OF decoder_table_single valid_envelope_examples(1) _
          dispatchable_ping]) (simp add: ping_request_def dict_get_def)
  moreover have "dict_get ping_request ''params'' = PNone"
    by (simp add: ping_request_def dict_get_def)
  ultimately show ?thesis
    by (simp add: invoke_call call_def invalidRequestObjecError_fields)
qed

text \<open>
  C3, amended. For every request that passes the envelope checks and names a
  dispatchable operation: when the \<^verbatim>\<open>params\<close> member is absent, the operation is not
  invoked and \<^verbatim>\<open>handle_request\<close> returns the Error variant of code -32600 with the
  extracted identifier; when \<^verbatim>\<open>params\<close> is present and is the empty list, the
  operation is invoked with no positional argument, and a plain value it returns comes
  back as the Success variant with the extracted identifier.
\<close>

theorem C3_absent_params:
  assumes "loads data = Inr (PDict d)" and "valid_envelope d"
    and "dict_get d ''method'' = PStr name" and "dispatchable self name"
  shows "(map_of d ''params'' = None \<longrightarrow>
            handle_request loads self data
              = ([], Inr (invalidRequestObjecError (dict_get d ''id''))) \<and>
            error_code (invalidRequestObjecError (dict_get d ''id'')) = Some (PInt (- 32600)) \<and>
            response_id (invalidRequestObjecError (dict_get d ''id'')) = Some (dict_get d ''id'')) \<and>
         (map_of d ''params'' = Some (PList []) \<and> getattr_self self name [] d = Inr v \<and>
            \<not> isinstance_SuccessResponse v \<longrightarrow>
            handle_request loads self data = ([], Inr (SuccessResponse v (dict_get d ''id''))) \<and>
            response_result (SuccessResponse v (dict_get d ''id'')) = Some v \<and>
            response_id (SuccessResponse v (dict_get d ''id'')) = Some (dict_get d ''id''))"
proof -
  have h: "handle_request loads self data =
             invoke self name (dict_get d ''params'') (PDict d) (dict_get d ''id'')"
    using assms by (rule handle_request_resolved)
  show ?thesis
    by (auto simp: h invoke_call call_def dict_get_def invalidRequestObjecError_fields
        SuccessResponse_fields)
qed

theorem C3_absent_params_witness:
  "handle_request (decoder_table [(ping_text, PDict ping_request)]) PingController ping_text
     = ([], Inr (invalidRequestObjecError (PInt 1))) \<and>
   handle_request (decoder_table [(ping_empty_text, PDict ping_empty_request)]) PingController
     ping_empty_text = ([], Inr (SuccessResponse (PStr ''pong'') (PInt 1)))"
proof -
  have m: "dict_get ping_request ''method'' = PStr ''ping''"
    "dict_get ping_empty_request ''method'' = PStr ''ping''"
    by (simp_all add: ping_request_def ping_empty_request_def dict_get_def)
  have p: "map_of ping_request ''params'' = None"
    "map_of ping_empty_request ''params'' = Some (PList [])"
    by (simp_all add: ping_request_def ping_empty_request_def)
  have i: "dict_get ping_request ''id'' = PInt 1" "dict_get ping_empty_request ''id'' = PInt 1"
    by (simp_all add: ping_request_def ping_empty_request_def dict_get_def)
  have r: "getattr_self PingController ''ping'' [] ping_empty_request = Inr (PStr ''pong'')"
    by (simp add: PingController_def ping_def ping_empty_request_def)
  show ?thesis
    using C3_absent_params [where loads = "decoder_table [(ping_text, PDict ping_request)]"
        and data = ping_text and v = "PStr ''pong''", OF decoder_table_single
        valid_envelope_examples(1) m(1) dispatchable_ping]
      C3_absent_params [where loads = "decoder_table [(ping_empty_text, PDict ping_empty_request)]"
        and data = ping_empty_text and v = "PStr ''pong''", OF decoder_table_single
        valid_envelope_examples(2) m(2) dispatchable_ping] p i r
    by simp
qed

subsection \<open>Guarded and unknown operation names\<close>

text \<open>
  C4. For every request that passes the envelope checks and whose operation name is one
  of the names of the dispatcher class itself (\<^verbatim>\<open>handle_request\<close> is one), or one of
  the names of the protected companion object, or is absent from the names of the
  handler, \<^verbatim>\<open>handle_request\<close> returns the Error variant of code -32601 with the
  extracted identifier. Nothing is assumed about the handler defining the name or not, so
  the guard wins when it does. A \<^verbatim>\<open>method\<close> member that is not a string is never a
  name of the handler and gets the same answer.
\<close>

theorem C4_guarded_or_unknown_method:
  assumes "loads data = Inr (PDict d)" and "valid_envelope d"
    and "\<forall>name. dict_get d ''method'' = PStr name \<longrightarrow>
           name \<in> set RequestHandlerMixin_dir \<or> name \<in> set (dir_protected self) \<or>
           name \<notin> set (dir_self self)"
  shows "handle_request loads self data = ([], Inr (NonExistentMethodError (dict_get d ''id''))) \<and>
         error_code (NonExistentMethodError (dict_get d ''id'')) = Some (PInt (- 32601)) \<and>
         response_id (NonExistentMethodError (dict_get d ''id'')) = Some (dict_get d ''id'') \<and>
         ''handle_request'' \<in> set RequestHandlerMixin_dir"
proof -
  have "\<forall>name. dict_get d ''method'' = PStr name \<longrightarrow> \<not> dispatchable self name"
    using assms(3) by (auto simp: dispatchable_def)
  with assms(1,2)
  have "handle_request loads self data = ([], Inr (NonExistentMethodError (dict_get d ''id'')))"
    by (rule handle_request_unresolved)
  then show ?thesis
    by (simp add: NonExistentMethodError_fields RequestHandlerMixin_dir_def)
qed

theorem C4_guarded_or_unknown_method_witness:
  "''handle_request'' \<in> set (dir_self SimpleController) \<and>
   handle_request (decoder_table [(guarded_text, PDict guarded_request)]) SimpleController
     guarded_text = ([], Inr (NonExistentMethodError PNone))"
proof -
  have m: "\<forall>name. dict_get guarded_request ''method'' = PStr name \<longrightarrow>
             name \<in> set RequestHandlerMixin_dir \<or> name \<in> set (dir_protected SimpleController) \<or>
             name \<notin> set (dir_self SimpleController)"
    by (simp add: guarded_request_def dict_get_def RequestHandlerMixin_dir_def)
  have i: "dict_get guarded_request ''id'' = PNone"
    by (simp add: guarded_request_def dict_get_def)
  have s: "''handle_request'' \<in> set (dir_self SimpleController)"
    by (simp add: SimpleController_def RequestHandlerMixin_dir_def)
  show ?thesis
    using C4_guarded_or_unknown_method
      [where loads = "decoder_table [(guarded_text, PDict guarded_request)]"
        and data = guarded_text, OF decoder_table_single valid_envelope_examples(3) m] i s
    by simp
qed

subsection \<open>Failures of the invoked operation\<close>

text \<open>
  C5, as the spec states it, fails: \<^verbatim>\<open>except TypeError\<close> comes before
  \<^verbatim>\<open>except BaseJSONRPCException\<close>, so an application-declared failure whose class
  also derives from TypeError (\<^verbatim>\<open>BadParams\<close>, code 2) is answered with the Error
  variant of code -32600, not with its own code and message.
\<close>

theorem C5_type_error_subclass_counterexample:
  "map_sum id error_code
     (snd (handle_request (decoder_table [(check_text, PDict check_request)]) CheckController
        check_text))
     = Inr (Some (PInt (- 32600)))"
proof -
  have "handle_request (decoder_table [(check_text, PDict check_request)]) CheckController
          check_text
          = invoke CheckController ''check'' (dict_get check_request ''params'')
              (PDict check_request) (dict_get check_request ''id'')"
    by (rule handle_request_resolved [OF decoder_table_single _ _ dispatchable_check])
      (simp_all add: check_request_def dict_get_def valid_envelope_def)
  moreover have "dict_get check_request ''params'' = PList []"
    by (simp add: check_request_def dict_get_def)
  moreover have "getattr_self CheckController ''check'' [] check_request
                   = Inl (JSONRPCTypeError (Some (PInt 2)) (PStr ''Bad parameters''))"
    by (simp add: CheckController_def check_op_def check_request_def BadParams_def)
  ultimately show ?thesis
    by (simp add: invoke_call call_def invalidRequestObjecError_fields)
qed

text \<open>
  C5, amended. For every request that passes the envelope checks, with identifier \<open>i\<close>,
  whose resolved operation raises a \<^verbatim>\<open>BaseJSONRPCException\<close> carrying code \<open>c\<close> and
  message \<open>m\<close>: when the exception is not also a TypeError, \<^verbatim>\<open>handle_request\<close>
  returns a response whose \<^verbatim>\<open>error\<close> is \<^verbatim>\<open>{code: c, message: m}\<close> and whose
  \<^verbatim>\<open>id\<close> is \<open>i\<close>; when its class also derives from TypeError, the earlier
  \<^verbatim>\<open>except TypeError\<close> clause answers with the Error variant of code -32600 and
  identifier \<open>i\<close>.
\<close>

theorem C5_application_failure:
  assumes "loads data = Inr (PDict d)" and "valid_envelope d"
    and "dict_get d ''method'' = PStr name" and "dispatchable self name"
    and "star_args (dict_get d ''params'') = Inr args"
    and "getattr_self self name args d = Inl e"
    and "e = JSONRPCException (Some c) m \<or> e = JSONRPCTypeError (Some c) m"
  shows "(\<not> isinstance_TypeError e \<longrightarrow>
          (\<exists>r. handle_request loads self data = ([], Inr r) \<and>
             response_error r = Some (PDict [(''code'', c), (''message'', m)]) \<and>
             response_id r = Some (dict_get d ''id'') \<and>
             response_result r = None)) \<and>
         (isinstance_TypeError e \<longrightarrow>
            handle_request loads self data
              = ([], Inr (invalidRequestObjecError (dict_get d ''id''))) \<and>
            error_code (invalidRequestObjecError (dict_get d ''id'')) = Some (PInt (- 32600)) \<and>
            response_id (invalidRequestObjecError (dict_get d ''id'')) = Some (dict_get d ''id''))"
proof -
  have "handle_request loads self data =
          invoke self name (dict_get d ''params'') (PDict d) (dict_get d ''id'')"
    using assms(1-4) by (rule handle_request_resolved)
  moreover have "call (getattr_self self name) (dict_get d ''params'') (PDict d) = Inl e"
    using assms(5,6) by (simp add: call_args)
  ultimately have h: "handle_request loads self data =
      (if isinstance_TypeError e then ([], Inr (invalidRequestObjecError (dict_get d ''id'')))
       else ([], CustomException e (dict_get d ''id'')))"
    using assms(7) by (auto simp: invoke_call)
  from assms(7) show ?thesis
  proof
    assume "e = JSONRPCException (Some c) m"
    with h show ?thesis
      by (simp add: response_error_def response_id_def response_result_def
          BaseResourceResponse_init_def)
  next
    assume "e = JSONRPCTypeError (Some c) m"
    with h show ?thesis
      by (simp add: invalidRequestObjecError_fields)
  qed
qed

theorem C5_application_failure_witness:
  "(\<exists>r. handle_request (decoder_table [(custom_exception_text, PDict custom_exception_request)])
          SimpleController custom_exception_text = ([], Inr r) \<and>
       response_error r
         = Some (PDict [(''code'', PInt 1), (''message'', PStr ''My Custom Exception'')]) \<and>
       response_id r = Some (PInt 4) \<and> response_result r = None) \<and>
   handle_request (decoder_table [(check_text, PDict check_request)]) CheckController check_text
     = ([], Inr (invalidRequestObjecError (PInt 4)))"
proof -
  have m: "dict_get custom_exception_request ''method'' = PStr ''custom_exception''"
    "dict_get check_request ''method'' = PStr ''check''"
    by (simp_all add: custom_exception_request_def check_request_def dict_get_def)
  have a: "star_args (dict_get custom_exception_request ''params'') = Inr []"
    "star_args (dict_get check_request ''params'') = Inr []"
    by (simp_all add: custom_exception_request_def check_request_def dict_get_def)
  have e: "getattr_self SimpleController ''custom_exception'' [] custom_exception_request
             = Inl (JSONRPCException (Some (PInt 1)) (PStr ''My Custom Exception''))"
    "getattr_self CheckController ''check'' [] check_request
             = Inl (JSONRPCTypeError (Some (PInt 2)) (PStr ''Bad parameters''))"
    by (simp_all add: SimpleController_def SimpleController_getattr_def custom_exception_def
        MyException_def custom_exception_request_def CheckController_def check_op_def
        check_request_def BadParams_def)
  have v: "valid_envelope check_request"
    by (simp add: valid_envelope_def check_request_def dict_get_def)
  have i: "dict_get custom_exception_request ''id'' = PInt 4"
    "dict_get check_request ''id'' = PInt 4"
    by (simp_all add: custom_exception_request_def check_request_def dict_get_def)
  show ?thesis
    using C5_application_failure
      [where loads = "decoder_table [(custom_exception_text, PDict custom_exception_request)]"
        and data = custom_exception_text and c = "PInt 1" and m = "PStr ''My Custom Exception''",
        OF decoder_table_single valid_envelope_examples(4) m(1) dispatchable_SimpleController(2)
          a(1) e(1)]
      C5_application_failure
      [where loads = "decoder_table [(check_text, PDict check_request)]"
        and data = check_text and c = "PInt 2" and m = "PStr ''Bad parameters''",
        OF decoder_table_single v m(2) dispatchable_check a(2) e(2)]
      i
    by simp
qed

text \<open>
  C6, as the spec states it, fails: when the handler has a \<^verbatim>\<open>_logger\<close> whose
  \<^verbatim>\<open>exception\<close> method raises, an operation that raises a plain \<^verbatim>\<open>Exception\<close>
  does not lead to the -32603 response; the exception of the logger leaves
  \<^verbatim>\<open>handle_request\<close>.
\<close>

theorem C6_failing_logger_counterexample:
  "snd (handle_request (decoder_table [(internal_error_text, PDict internal_error_request)])
          FailingLoggerController internal_error_text)
     = Inl (OtherException ''IOError'')"
proof -
  have "handle_request (decoder_table [(internal_error_text, PDict internal_error_request)])
          FailingLoggerController internal_error_text
          = invoke FailingLoggerController ''internal_error''
              (dict_get internal_error_request ''params'') (PDict internal_error_request)
              (dict_get internal_error_request ''id'')"
    by (rule handle_request_resolved [OF decoder_table_single valid_envelope_examples(5)])
      (simp_all add: internal_error_request_def dict_get_def dispatchable_with_logger)
  moreover have "dict_get internal_error_request ''params'' = PList []"
    by (simp add: internal_error_request_def dict_get_def)
  ultimately show ?thesis
    by (simp add: invoke_call call_def FailingLoggerController_def SimpleController_def
        SimpleController_getattr_def internal_error_def internal_error_request_def
        failing_logger_def)
qed

text \<open>
  C6, amended. For every request that passes the envelope checks, with identifier \<open>i\<close>,
  whose resolved operation raises a failure that is neither a TypeError nor a
  \<^verbatim>\<open>BaseJSONRPCException\<close>: provided the handler has no \<^verbatim>\<open>_logger\<close>, or the
  \<^verbatim>\<open>exception\<close> call of its \<^verbatim>\<open>_logger\<close> returns, \<^verbatim>\<open>handle_request\<close> returns the
  Error variant with code -32603, the fixed message \<^verbatim>\<open>Internal error.\<close> and identifier
  \<open>i\<close>; nothing of the failure is in the response.
\<close>

theorem C6_internal_error:
  assumes "loads data = Inr (PDict d)" and "valid_envelope d"
    and "dict_get d ''method'' = PStr name" and "dispatchable self name"
    and "star_args (dict_get d ''params'') = Inr args"
    and "getattr_self self name args d = Inl (OtherException cls)"
    and "logger self = None \<or> (\<exists>l. logger self = Some l \<and> l (OtherException cls) = None)"
  shows "snd (handle_request loads self data) = Inr (InternalError (dict_get d ''id'')) \<and>
         error_code (InternalError (dict_get d ''id'')) = Some (PInt (- 32603)) \<and>
         error_message (InternalError (dict_get d ''id'')) = Some (PStr ''Internal error.'') \<and>
         response_id (InternalError (dict_get d ''id'')) = Some (dict_get d ''id'') \<and>
         response_result (InternalError (dict_get d ''id'')) = None"
proof -
  have "handle_request loads self data =
          invoke self name (dict_get d ''params'') (PDict d) (dict_get d ''id'')"
    using assms(1-4) by (rule handle_request_resolved)
  moreover have "call (getattr_self self name) (dict_get d ''params'') (PDict d)
                   = Inl (OtherException cls)"
    using assms(5,6) by (simp add: call_args)
  ultimately show ?thesis
    using assms(7) by (auto simp: invoke_call InternalError_fields)
qed

theorem C6_internal_error_witness:
  "snd (handle_request (decoder_table [(internal_error_text, PDict internal_error_request)])
          SimpleController internal_error_text) = Inr (InternalError (PInt 4)) \<and>
   error_code (InternalError (PInt 4)) = Some (PInt (- 32603))"
proof -
  have m: "dict_get internal_error_request ''method'' = PStr ''internal_error''"
    by (simp add: internal_error_request_def dict_get_def)
  have a: "star_args (dict_get internal_error_request ''params'') = Inr []"
    by (simp add: internal_error_request_def dict_get_def)
  have e: "getattr_self SimpleController ''internal_error'' [] internal_error_request
             = Inl (OtherException ''Exception'')"
    by (simp add: SimpleController_def SimpleController_getattr_def internal_error_def
        internal_error_request_def)
  have l: "logger SimpleController = None \<or>
           (\<exists>l. logger SimpleController = Some l \<and> l (OtherException ''Exception'') = None)"
    by (simp add: SimpleController_def)
  have i: "dict_get internal_error_request ''id'' = PInt 4"
    by (simp add: internal_error_request_def dict_get_def)
  show ?thesis
    using C6_internal_error
      [where loads = "decoder_table [(internal_error_text, PDict internal_error_request)]"
        and data = internal_error_text,
        OF decoder_table_single valid_envelope_examples(5) m dispatchable_SimpleController(3) a e l]
      i
    by simp
qed

text \<open>
  C7, as the spec states it, fails: with a \<^verbatim>\<open>_logger\<close> whose \<^verbatim>\<open>exception\<close>
  method raises IOError, the logger is notified of the failure of the operation, its
  IOError leaves \<^verbatim>\<open>handle_request\<close>, and no response is returned.
\<close>

theorem C7_failing_logger_counterexample:
  "handle_request (decoder_table [(internal_error_text_7, PDict internal_error_request_7)])
     FailingLoggerController internal_error_text_7
     = ([OtherException ''Exception''], Inl (OtherException ''IOError''))"
proof -
  have "handle_request (decoder_table [(internal_error_text_7, PDict internal_error_request_7)])
          FailingLoggerController internal_error_text_7
          = invoke FailingLoggerController ''internal_error''
              (dict_get internal_error_request_7 ''params'') (PDict internal_error_request_7)
              (dict_get internal_error_request_7 ''id'')"
    by (rule handle_request_resolved [OF decoder_table_single valid_envelope_examples(7)])
      (simp_all add: internal_error_request_7_def dict_get_def dispatchable_with_logger)
  moreover have "dict_get internal_error_request_7 ''params'' = PList []"
    by (simp add: internal_error_request_7_def dict_get_def)
  ultimately show ?thesis
    by (simp add: invoke_call call_def FailingLoggerController_def SimpleController_def
        SimpleController_getattr_def internal_error_def internal_error_request_7_def
        failing_logger_def)
qed

text \<open>
  C7, amended. For every request that passes the envelope checks, with identifier \<open>i\<close>,
  whose resolved operation raises a failure that is neither a TypeError nor a
  \<^verbatim>\<open>BaseJSONRPCException\<close>, on a handler that has a \<^verbatim>\<open>_logger\<close>: the logger is
  notified once; if its \<^verbatim>\<open>exception\<close> call returns, \<^verbatim>\<open>handle_request\<close> returns the
  -32603 Error response with identifier \<open>i\<close>; if it raises, that failure leaves
  \<^verbatim>\<open>handle_request\<close> and no response is returned.
\<close>

theorem C7_logger_notified:
  assumes "loads data = Inr (PDict d)" and "valid_envelope d"
    and "dict_get d ''method'' = PStr name" and "dispatchable self name"
    and "star_args (dict_get d ''params'') = Inr args"
    and "getattr_self self name args d = Inl (OtherException cls)"
    and "logger self = Some l"
  shows "(l (OtherException cls) = None \<longrightarrow>
            handle_request loads self data
              = ([OtherException cls], Inr (InternalError (dict_get d ''id''))) \<and>
            error_code (InternalError (dict_get d ''id'')) = Some (PInt (- 32603)) \<and>
            response_id (InternalError (dict_get d ''id'')) = Some (dict_get d ''id'')) \<and>
         (\<forall>raised. l (OtherException cls) = Some raised \<longrightarrow>
            handle_request loads self data = ([OtherException cls], Inl raised))"
proof -
  have "handle_request loads self data =
          invoke self name (dict_get d ''params'') (PDict d) (dict_get d ''id'')"
    using assms(1-4) by (rule handle_request_resolved)
  moreover have "call (getattr_self self name) (dict_get d ''params'') (PDict d)
                   = Inl (OtherException cls)"
    using assms(5,6) by (simp add: call_args)
  ultimately show ?thesis
    using assms(7) by (simp add: invoke_call InternalError_fields)
qed

theorem C7_logger_notified_witness:
  "handle_request (decoder_table [(internal_error_text, PDict internal_error_request)])
     LoggingController internal_error_text
     = ([OtherException ''Exception''], Inr (InternalError (PInt 4))) \<and>
   handle_request (decoder_table [(internal_error_text, PDict internal_error_request)])
     FailingLoggerController internal_error_text
     = ([OtherException ''Exception''], Inl (OtherException ''IOError''))"
proof -
  have m: "dict_get internal_error_request ''method'' = PStr ''internal_error''"
    by (simp add: internal_error_request_def dict_get_def)
  have a: "star_args (dict_get internal_error_request ''params'') = Inr []"
    by (simp add: internal_error_request_def dict_get_def)
  have e: "getattr_self LoggingController ''internal_error'' [] internal_error_request
             = Inl (OtherException ''Exception'')"
    "getattr_self FailingLoggerController ''internal_error'' [] internal_error_request
             = Inl (OtherException ''Exception'')"
    by (simp_all add: LoggingController_def FailingLoggerController_def SimpleController_def
        SimpleController_getattr_def internal_error_def internal_error_request_def)
  note d = dispatchable_with_logger
  have l: "logger LoggingController = Some quiet_logger"
    "logger FailingLoggerController = Some failing_logger"
    by (simp_all add: LoggingController_def FailingLoggerController_def)
  have q: "quiet_logger (OtherException ''Exception'') = None"
    "failing_logger (OtherException ''Exception'') = Some (OtherException ''IOError'')"
    by (simp_all add: quiet_logger_def failing_logger_def)
  have i: "dict_get internal_error_request ''id'' = PInt 4"
    by (simp add: internal_error_request_def dict_get_def)
  show ?thesis
    using C7_logger_notified
      [where loads = "decoder_table [(internal_error_text, PDict internal_error_request)]"
        and data = internal_error_text,
        OF decoder_table_single valid_envelope_examples(5) m d(1) a e(1) l(1)]
      C7_logger_notified
      [where loads = "decoder_table [(internal_error_text, PDict internal_error_request)]"
        and data = internal_error_text,
        OF decoder_table_single valid_envelope_examples(5) m d(2) a e(2) l(2)]
      q i
    by simp
qed

text \<open>
  C10. For every request that passes the envelope checks, with identifier \<open>i\<close>, whose
  resolved operation raises an instance of TypeError, of any subclass (the model does
  not tell a TypeError raised in the body of the operation from one raised when the
  arguments are bound),
  \<^verbatim>\<open>handle_request\<close> returns the Error variant with code -32600 and identifier \<open>i\<close>,
  not the -32603 one, and the logger receives no notification, whatever the handler has
  as \<^verbatim>\<open>_logger\<close>.
\<close>

theorem C10_type_error_is_invalid_request:
  assumes "loads data = Inr (PDict d)" and "valid_envelope d"
    and "dict_get d ''method'' = PStr name" and "dispatchable self name"
    and "star_args (dict_get d ''params'') = Inr args"
    and "getattr_self self name args d = Inl e" and "isinstance_TypeError e"
  shows "handle_request loads self data
           = ([], Inr (invalidRequestObjecError (dict_get d ''id''))) \<and>
         error_code (invalidRequestObjecError (dict_get d ''id'')) = Some (PInt (- 32600)) \<and>
         error_code (invalidRequestObjecError (dict_get d ''id'')) \<noteq> Some (PInt (- 32603)) \<and>
         response_id (invalidRequestObjecError (dict_get d ''id'')) = Some (dict_get d ''id'')"
proof -
  have "handle_request loads self data =
          invoke self name (dict_get d ''params'') (PDict d) (dict_get d ''id'')"
    using assms(1-4) by (rule handle_request_resolved)
  moreover have "call (getattr_self self name) (dict_get d ''params'') (PDict d) = Inl e"
    using assms(5,6) by (simp add: call_args)
  ultimately show ?thesis
    using assms(7) by (cases e) (simp_all add: invoke_call invalidRequestObjecError_fields)
qed

theorem C10_type_error_is_invalid_request_witness:
  "logger MeasureController = Some quiet_logger \<and>
   handle_request (decoder_table [(measure_text, PDict measure_request)]) MeasureController
     measure_text = ([], Inr (invalidRequestObjecError (PInt 9)))"
proof -
  have m: "dict_get measure_request ''method'' = PStr ''measure''"
    by (simp add: measure_request_def dict_get_def)
  have a: "star_args (dict_get measure_request ''params'') = Inr []"
    by (simp add: measure_request_def dict_get_def)
  have e: "getattr_self MeasureController ''measure'' [] measure_request = Inl TypeError"
    by (simp add: MeasureController_def measure_op_def measure_request_def)
  have i: "dict_get measure_request ''id'' = PInt 9"
    by (simp add: measure_request_def dict_get_def)
  have l: "logger MeasureController = Some quiet_logger"
    by (simp add: MeasureController_def)
  show ?thesis
    using C10_type_error_is_invalid_request
      [where loads = "decoder_table [(measure_text, PDict measure_request)]"
        and data = measure_text,
        OF decoder_table_single valid_envelope_examples(6) m dispatchable_measure a e] i l
    by simp
qed

section \<open>Properties of the responses and of the encoder\<close>

subsection \<open>What the responses carry\<close>

lemma default_built:
  assumes "c \<noteq> Other_class" "f = ''result'' \<or> f = ''error''"
  shows "ResourceResponseJSONEncoder_default (PObj c (BaseResourceResponse_init i @ [(f, p)]))
     = Inr (PDict [(''jsonrpc'', PStr ''2.0''), (''id'', i), (f, p)])"
  using assms by (auto simp: BaseResourceResponse_init_def RPC_VERSION_def)

lemma well_formed_built:
  assumes "c \<noteq> Other_class" "f = ''result'' \<or> f = ''error''"
  shows "well_formed_response (PObj c (BaseResourceResponse_init i @ [(f, p)]))"
  using assms default_built [OF assms, of i p]
  by (auto simp: well_formed_response_def wire_field_def
      simp del: ResourceResponseJSONEncoder_default.simps)

lemma well_formed_constructors:
  "well_formed_response (InternalError i)"
  "well_formed_response (NonExistentMethodError i)"
  "well_formed_response (InvalidJSONError i)"
  "well_formed_response (invalidRequestObjecError i)"
  "well_formed_response (SuccessResponse v i)"
  by (simp_all add: InternalError_def NonExistentMethodError_def InvalidJSONError_def
      invalidRequestObjecError_def SuccessResponse_def well_formed_built)

lemma well_formed_CustomException:
  "CustomException e i = Inr r \<Longrightarrow> well_formed_response r"
  by (cases "(e, i)" rule: CustomException.cases) (auto simp: AttributeError_def well_formed_built)

lemma call_result:
  "call f params request_object = Inr v \<Longrightarrow>
   \<exists>args d. star_args params = Inr args \<and> request_object = PDict d \<and> f args d = Inr v"
  by (cases request_object) (auto simp: call_def split: sum.splits)

lemma invoke_well_formed:
  assumes "invoke self name params (PDict d) request_id = (lg, Inr r)"
  shows "well_formed_response r \<or>
         (isinstance_SuccessResponse r \<and>
          (\<exists>args. star_args params = Inr args \<and> getattr_self self name args d = Inr r))"
proof (cases "call (getattr_self self name) params (PDict d)")
  case (Inr v)
  show ?thesis
  proof (cases "isinstance_SuccessResponse v")
    case True
    with Inr assms have "r = v" by (simp add: invoke_call)
    with True call_result [OF Inr] show ?thesis by auto
  next
    case False
    with Inr assms have "r = SuccessResponse v request_id" by (simp add: invoke_call)
    then show ?thesis by (simp add: well_formed_constructors)
  qed
next
  case (Inl e)
  show ?thesis
  proof (cases e)
    case TypeError
    with Inl assms show ?thesis by (auto simp: invoke_call well_formed_constructors)
  next
    case (JSONRPCException c m)
    with Inl assms have "CustomException (JSONRPCException c m) request_id = Inr r"
      by (simp add: invoke_call)
    then show ?thesis by (simp add: well_formed_CustomException)
  next
    case (JSONRPCTypeError c m)
    with Inl assms show ?thesis by (auto simp: invoke_call well_formed_constructors)
  next
    case (OtherException cls)
    with Inl assms show ?thesis
      by (auto simp: invoke_call well_formed_constructors split: option.splits)
  qed
qed

lemma validate_request_exits:
  assumes "validate_request self request = (lg, Inr r)"
  shows "r = InvalidJSONError PNone \<or> r = invalidRequestObjecError PNone \<or>
         (\<exists>i. r = NonExistentMethodError i) \<or>
         (\<exists>d name. request = PDict d \<and> dict_get d ''method'' = PStr name \<and>
            invoke self name (dict_get d ''params'') (PDict d) (dict_get d ''id'') = (lg, Inr r))"
proof (cases request)
  case (PDict d)
  with assms show ?thesis
    by (auto simp: validate_request_def Let_def split: sum.splits if_splits pyval.splits)
qed (use assms in \<open>auto simp: validate_request_def AttributeError_def split: if_splits\<close>)

text \<open>
  C8, amended. Every response \<^verbatim>\<open>handle_request\<close> builds itself (the four fixed error
  responses, the \<^verbatim>\<open>CustomException\<close> response and the \<^verbatim>\<open>SuccessResponse\<close> it
  wraps around a plain result) carries the version tag, an identifier and exactly one of
  \<^verbatim>\<open>result\<close> and \<^verbatim>\<open>error\<close>. The only other value it returns is an instance of
  \<^verbatim>\<open>SuccessResponse\<close> that the invoked operation returned, passed through unchanged
  with whatever fields the operation gave it.
\<close>

theorem C8_response_fields:
  assumes "handle_request loads self data = (lg, Inr r)"
  shows "well_formed_response r \<or>
         (isinstance_SuccessResponse r \<and>
          (\<exists>d name args. loads data = Inr (PDict d) \<and> dict_get d ''method'' = PStr name \<and>
             star_args (dict_get d ''params'') = Inr args \<and>
             getattr_self self name args d = Inr r))"
proof (cases "loads data")
  case (Inl e)
  with assms show ?thesis by (auto simp: handle_request_def well_formed_constructors)
next
  case (Inr request)
  with assms have "validate_request self request = (lg, Inr r)"
    by (simp add: handle_request_def)
  from validate_request_exits [OF this]
  consider "r = InvalidJSONError PNone" | "r = invalidRequestObjecError PNone"
    | i where "r = NonExistentMethodError i"
    | d name where "request = PDict d" "dict_get d ''method'' = PStr name"
        "invoke self name (dict_get d ''params'') (PDict d) (dict_get d ''id'') = (lg, Inr r)"
    by blast
  then show ?thesis
  proof cases
    case 4
    from invoke_well_formed [OF 4(3)] 4(1,2) Inr show ?thesis by auto
  qed (simp_all add: well_formed_constructors)
qed

lemma valid_envelope_more:
  "valid_envelope report_request" "valid_envelope echo_request"
  by (simp_all add: valid_envelope_def dict_get_def report_request_def echo_request_def)

lemma dispatchable_report: "dispatchable ReportController ''report''"
  by (simp add: dispatchable_def ReportController_def RequestHandlerMixin_dir_def object_dir_def)

text \<open>
  C8, as the spec states it, fails: the operation \<^verbatim>\<open>report\<close> returns an instance
  of a subclass of \<^verbatim>\<open>SuccessResponse\<close> with an \<^verbatim>\<open>error\<close> attribute;
  \<^verbatim>\<open>handle_request\<close> returns it as it is, and the encoder writes both \<^verbatim>\<open>result\<close>
  and \<^verbatim>\<open>error\<close>.
\<close>

theorem C8_passed_through_counterexample:
  "snd (handle_request (decoder_table [(report_text, PDict report_request)]) ReportController
          report_text) = Inr annotated_response \<and>
   wire_field annotated_response ''result'' = Some (PStr ''done'') \<and>
   wire_field annotated_response ''error'' = Some (PStr ''partial'') \<and>
   \<not> well_formed_response annotated_response"
proof -
  have "handle_request (decoder_table [(report_text, PDict report_request)]) ReportController
          report_text
          = invoke ReportController ''report'' (dict_get report_request ''params'')
              (PDict report_request) (dict_get report_request ''id'')"
    by (rule handle_request_resolved [OF decoder_table_single valid_envelope_more(1) _
          dispatchable_report]) (simp add: report_request_def dict_get_def)
  moreover have "dict_get report_request ''params'' = PList []"
    by (simp add: report_request_def dict_get_def)
  moreover have "getattr_self ReportController ''report'' [] report_request
                   = Inr annotated_response"
    by (simp add: ReportController_def report_def report_request_def)
  moreover have "isinstance_SuccessResponse annotated_response"
    by (simp add: annotated_response_def)
  ultimately have "snd (handle_request (decoder_table [(report_text, PDict report_request)])
      ReportController report_text) = Inr annotated_response"
    by (simp add: invoke_call call_def)
  moreover have "ResourceResponseJSONEncoder_default annotated_response
      = Inr (PDict [(''jsonrpc'', PStr ''2.0''), (''id'', PNone), (''result'', PStr ''done''),
                    (''error'', PStr ''partial'')])"
    by (simp add: annotated_response_def BaseResourceResponse_init_def RPC_VERSION_def)
  ultimately show ?thesis
    by (simp add: well_formed_response_def wire_field_def
        del: ResourceResponseJSONEncoder_default.simps)
qed

theorem C8_response_fields_witness:
  "handle_request (decoder_table [(echo_text, PDict echo_request)]) SimpleController echo_text
     = ([], Inr (SuccessResponse (PStr ''HI'') (PInt 4))) \<and>
   well_formed_response (SuccessResponse (PStr ''HI'') (PInt 4))"
proof -
  have "handle_request (decoder_table [(echo_text, PDict echo_request)]) SimpleController echo_text
          = invoke SimpleController ''echo'' (dict_get echo_request ''params'')
              (PDict echo_request) (dict_get echo_request ''id'')"
    by (rule handle_request_resolved [OF decoder_table_single valid_envelope_more(2) _
          dispatchable_SimpleController(1)]) (simp add: echo_request_def dict_get_def)
  moreover have "dict_get echo_request ''params'' = PList [PStr ''HI'']"
    "dict_get echo_request ''id'' = PInt 4"
    by (simp_all add: echo_request_def dict_get_def)
  moreover have "getattr_self SimpleController ''echo'' [PStr ''HI''] echo_request
                   = Inr (PStr ''HI'')"
    by (simp add: SimpleController_def SimpleController_getattr_def echo_def echo_request_def)
  ultimately have h: "handle_request (decoder_table [(echo_text, PDict echo_request)])
      SimpleController echo_text = ([], Inr (SuccessResponse (PStr ''HI'') (PInt 4)))"
    by (simp add: invoke_call call_def)
  have "\<forall>d name args.
          decoder_table [(echo_text, PDict echo_request)] echo_text = Inr (PDict d) \<and>
          dict_get d ''method'' = PStr name \<and> star_args (dict_get d ''params'') = Inr args
          \<longrightarrow> getattr_self SimpleController name args d \<noteq> Inr (SuccessResponse (PStr ''HI'') (PInt 4))"
    by (auto simp: decoder_table_def echo_request_def dict_get_def SimpleController_def
        SimpleController_getattr_def echo_def SuccessResponse_def)
  with C8_response_fields [OF h] h show ?thesis by blast
qed


subsection \<open>Numbers are read back\<close>














subsection \<open>Strings are read back\<close>

lemma hex_val_hex_digit: "k < 16 \<Longrightarrow> hex_val (hex_digit k) = Some k"
proof -
  have "\<forall>k \<in> {0..<16::nat}. hex_val (hex_digit k) = Some k" by code_simp
  then show "k < 16 \<Longrightarrow> hex_val (hex_digit k) = Some k" by auto
qed

lemma of_char_less_256: "(of_char c :: nat) < 256"
  by (cases c) simp

lemma scanstring_cons:
  "scanstring (escape_char c @ tail) =
     (case scanstring tail of None \<Rightarrow> None | Some (t, rest) \<Rightarrow> Some (c # t, rest))"
proof -
  let ?n = "of_char c :: nat"
  have "?n < 16 * 16" using of_char_less_256 [of c] by simp
  then have lt: "?n div 16 < 16" "?n mod 16 < 16"
    by (simp_all add: less_mult_imp_div_less)
  have cc: "char_of (?n div 16 * 16 + ?n mod 16) = c" by simp
  have h: "hex4 [CHR ''0'', CHR ''0'', hex_digit (?n div 16), hex_digit (?n mod 16)]
             = Some (?n div 16 * 16 + ?n mod 16)"
    by (simp add: hex4_def hex_val_hex_digit lt) (simp add: hex_val_def is_digit_def)
  have small: "?n div 16 * 16 + ?n mod 16 < 256" using of_char_less_256 [of c] by simp
  show ?thesis
    unfolding escape_char_def
    by (auto simp: unescape_def h small cc simp del: div_mult_mod_eq mod_div_mult_eq
        split: option.splits)
qed

lemma scanstring_body:
  "scanstring (concat (map escape_char s) @ CHR 0x22 # rest) = Some (s, rest)"
  by (induction s) (simp_all add: scanstring_cons)

lemma scanstring_write_string:
  "scanstring (tl (write_string s) @ rest) = Some (s, rest)"
  by (simp add: write_string_def scanstring_body)

subsection \<open>Plain values are read back\<close>







lemma skip_ws_punct [simp]:
  "skip_ws (CHR '','' # s) = CHR '','' # s" "skip_ws (CHR '']'' # s) = CHR '']'' # s"
  "skip_ws (CHR ''}'' # s) = CHR ''}'' # s" "skip_ws (CHR '':'' # s) = CHR '':'' # s"
  "skip_ws (CHR 0x22 # s) = CHR 0x22 # s"
  by (simp_all add: skip_ws_def is_ws_def)

lemma value_end_punct [simp]:
  "value_end (CHR '','' # s)" "value_end (CHR '']'' # s)" "value_end (CHR ''}'' # s)"
  "value_end []"
  by (simp_all add: value_end_def)











subsection \<open>Encoding and decoding a response\<close>







end
